theory Spec2Isabelle
  imports Main "HOL-Library.Word" "HOL-Library.List_Lexorder"
begin

unbundle bit_operations_syntax

section \<open>JavaScript strings\<close>

text \<open>
  A JavaScript string is a sequence of UTF-16 code units. Comparison (\<open><\<close>, and so the
  default \<open>Array.prototype.sort\<close>) is lexicographic on the code units, which is the order
  that \<open>HOL-Library.List_Lexorder\<close> puts on lists of words.
\<close>

type_synonym jsstring = "16 word list"

definition js :: "string \<Rightarrow> jsstring" where
  "js s = map (\<lambda>c. of_nat (of_char c)) s"

text \<open>ECMAScript \<open>LineTerminator\<close>: LF, CR, LS, PS. The regular-expression atom \<open>.\<close>
  matches every code unit but these.\<close>

definition isLineTerminator :: "16 word \<Rightarrow> bool" where
  "isLineTerminator c = (c = 0x000A \<or> c = 0x000D \<or> c = 0x2028 \<or> c = 0x2029)"

text \<open>ECMAScript \<open>WhiteSpace\<close> (TAB, VT, FF, SP, NBSP, BOM and the Unicode space
  separators) together with the line terminators: what \<open>String.prototype.trim\<close> strips.\<close>

definition isWhiteSpace :: "16 word \<Rightarrow> bool" where
  "isWhiteSpace c =
     (c = 0x0009 \<or> c = 0x000B \<or> c = 0x000C \<or> c = 0x0020 \<or> c = 0x00A0 \<or> c = 0x1680
      \<or> (0x2000 \<le> c \<and> c \<le> 0x200A) \<or> c = 0x202F \<or> c = 0x205F \<or> c = 0x3000
      \<or> c = 0xFEFF \<or> isLineTerminator c)"

text \<open>\<open>s.trim()\<close>\<close>

definition trim :: "jsstring \<Rightarrow> jsstring" where
  "trim s = rev (dropWhile isWhiteSpace (rev (dropWhile isWhiteSpace s)))"

text \<open>\<open>s.replace(/\r\n/g, '\n')\<close>: one pass from the left; every CR that is directly
  followed by LF starts a match, the pair is replaced by LF and the scan goes on behind it.\<close>

fun replace_crlf :: "jsstring \<Rightarrow> jsstring" where
  "replace_crlf (a # b # cs) =
     (if a = 0x000D \<and> b = 0x000A then 0x000A # replace_crlf cs
      else a # replace_crlf (b # cs))"
| "replace_crlf cs = cs"

text \<open>The content has a CR directly in front of a CRLF pair.\<close>

fun has_cr_crlf :: "jsstring \<Rightarrow> bool" where
  "has_cr_crlf (a # b # c # cs) =
     ((a = 0x000D \<and> b = 0x000D \<and> c = 0x000A) \<or> has_cr_crlf (b # c # cs))"
| "has_cr_crlf cs = False"

text \<open>\<open>/.+\.sql$/.test(f)\<close>: the pattern is not anchored at the start, so it matches
  as soon as \<open>f\<close> ends in \<open>.sql\<close> with one code unit, not a line terminator, in front.\<close>

definition sqlExt_test :: "jsstring \<Rightarrow> bool" where
  "sqlExt_test f =
     (let n = length f
      in 5 \<le> n \<and> drop (n - 4) f = js ''.sql'' \<and> \<not> isLineTerminator (f ! (n - 5)))"

text \<open>Decimal rendering of a number, as string concatenation \<open>n + '...'\<close> does.\<close>

fun js_of_nat :: "nat \<Rightarrow> jsstring" where
  "js_of_nat n =
     (if n < 10 then [of_nat (48 + n)] else js_of_nat (n div 10) @ [of_nat (48 + n mod 10)])"

section \<open>Errors\<close>

datatype error =
    TypeError                \<comment> \<open>property access on \<open>null\<close> or \<open>undefined\<close>\<close>
  | IOError jsstring         \<comment> \<open>raised by \<open>Fs.readdir\<close> or \<open>Fs.readFile\<close>\<close>
  | DbError jsstring         \<comment> \<open>raised by the database driver\<close>
  | Error jsstring           \<comment> \<open>\<open>throw new Error(message)\<close>\<close>

section \<open>Identity and hashing\<close>

text \<open>
  \<open>Crypto.createHash('md5')\<close> belongs to the platform, not to the program: the engine
  takes the digest function as a parameter \<open>md5\<close>, from the text to the 128-bit digest
  (most significant byte first). \<open>digest('hex')\<close> writes the sixteen bytes as thirty-two
  lower-case hexadecimal digits.
\<close>

type_synonym digest = "jsstring \<Rightarrow> 128 word"

definition hex_alphabet :: jsstring where
  "hex_alphabet = js ''0123456789abcdef''"

definition hexdigit :: "4 word \<Rightarrow> 16 word" where
  "hexdigit n = hex_alphabet ! unat n"

definition digest_hex :: "128 word \<Rightarrow> jsstring" where
  "digest_hex w = map (\<lambda>i. hexdigit (ucast (drop_bit (4 * (31 - i)) w))) [0..<32]"

text \<open>The five groups \<open>parts[1] + '-' + ... + parts[5]\<close> of line 333.\<close>

definition guid_parts :: "jsstring \<Rightarrow> jsstring" where
  "guid_parts d =
     take 8 d @ js ''-'' @ take 4 (drop 8 d) @ js ''-'' @ take 4 (drop 12 d) @ js ''-''
       @ take 4 (drop 16 d) @ js ''-'' @ take 12 (drop 20 d)"

text \<open>\<open>getHash\<close> (lines 328-334). The pattern \<open>/^(.{8})(.{4})(.{4})(.{4})(.{12})$/\<close>
  matches exactly the strings of thirty-two code units without a line terminator; on any
  other string \<open>exec\<close> gives \<open>null\<close> and \<open>parts[1]\<close> raises a TypeError.\<close>

definition getHash :: "digest \<Rightarrow> jsstring \<Rightarrow> error + jsstring" where
  "getHash md5 sql =
     (let d = digest_hex (md5 sql)
      in if length d = 32 \<and> list_all (\<lambda>c. \<not> isLineTerminator c) d
         then Inr (guid_parts d) else Inl TypeError)"

record sql_script =
  name :: jsstring
  sql :: jsstring
  hash :: jsstring

text \<open>The constructor \<open>SqlScript\<close> (lines 312-317): the payload is trimmed, the hash is
  taken from the text as it was read, with CRLF replaced by LF and not trimmed.\<close>

definition SqlScript :: "digest \<Rightarrow> jsstring \<Rightarrow> jsstring \<Rightarrow> error + sql_script" where
  "SqlScript md5 nm text =
     (case getHash md5 (replace_crlf text) of
        Inl e \<Rightarrow> Inl e
      | Inr h \<Rightarrow> Inr \<lparr>name = nm, sql = trim text, hash = h\<rparr>)"

subsection \<open>A reference digest: MD5 (RFC 1321) over UTF-8\<close>

text \<open>
  The theorems below hold for every digest function. The concrete examples need one, and
  use the MD5 of RFC 1321 on the UTF-8 encoding of the text, which is what Node computes
  for \<open>md5.update(sql)\<close>.
\<close>

fun utf8 :: "jsstring \<Rightarrow> 8 word list" where
  "utf8 [] = []"
| "utf8 [u] =
     (if u < 0x80 then [ucast u]
      else if u < 0x800 then [0xC0 OR ucast (drop_bit 6 u), 0x80 OR ucast (u AND 0x3F)]
      else if 0xD800 \<le> u \<and> u < 0xE000 then [0xEF, 0xBF, 0xBD]
      else [0xE0 OR ucast (drop_bit 12 u), 0x80 OR ucast (drop_bit 6 u AND 0x3F),
            0x80 OR ucast (u AND 0x3F)])"
| "utf8 (u # v # vs) =
     (if u < 0x80 then ucast u # utf8 (v # vs)
      else if u < 0x800 then
        [0xC0 OR ucast (drop_bit 6 u), 0x80 OR ucast (u AND 0x3F)] @ utf8 (v # vs)
      else if 0xD800 \<le> u \<and> u < 0xDC00 \<and> 0xDC00 \<le> v \<and> v < 0xE000 then
        (let cp = 0x10000 + push_bit 10 (ucast (u AND 0x3FF)) + ucast (v AND 0x3FF) :: 32 word
         in [0xF0 OR ucast (drop_bit 18 cp), 0x80 OR ucast (drop_bit 12 cp AND 0x3F),
             0x80 OR ucast (drop_bit 6 cp AND 0x3F), 0x80 OR ucast (cp AND 0x3F)] @ utf8 vs)
      else if 0xD800 \<le> u \<and> u < 0xE000 then [0xEF, 0xBF, 0xBD] @ utf8 (v # vs)
      else [0xE0 OR ucast (drop_bit 12 u), 0x80 OR ucast (drop_bit 6 u AND 0x3F),
            0x80 OR ucast (u AND 0x3F)] @ utf8 (v # vs))"

definition md5_K :: "32 word list" where
  "md5_K =
     [0xd76aa478, 0xe8c7b756, 0x242070db, 0xc1bdceee, 0xf57c0faf, 0x4787c62a, 0xa8304613,
      0xfd469501, 0x698098d8, 0x8b44f7af, 0xffff5bb1, 0x895cd7be, 0x6b901122, 0xfd987193,
      0xa679438e, 0x49b40821, 0xf61e2562, 0xc040b340, 0x265e5a51, 0xe9b6c7aa, 0xd62f105d,
      0x02441453, 0xd8a1e681, 0xe7d3fbc8, 0x21e1cde6, 0xc33707d6, 0xf4d50d87, 0x455a14ed,
      0xa9e3e905, 0xfcefa3f8, 0x676f02d9, 0x8d2a4c8a, 0xfffa3942, 0x8771f681, 0x6d9d6122,
      0xfde5380c, 0xa4beea44, 0x4bdecfa9, 0xf6bb4b60, 0xbebfbc70, 0x289b7ec6, 0xeaa127fa,
      0xd4ef3085, 0x04881d05, 0xd9d4d039, 0xe6db99e5, 0x1fa27cf8, 0xc4ac5665, 0xf4292244,
      0x432aff97, 0xab9423a7, 0xfc93a039, 0x655b59c3, 0x8f0ccc92, 0xffeff47d, 0x85845dd1,
      0x6fa87e4f, 0xfe2ce6e0, 0xa3014314, 0x4e0811a1, 0xf7537e82, 0xbd3af235, 0x2ad7d2bb,
      0xeb86d391]"

definition md5_S :: "nat list" where
  "md5_S =
     [7, 12, 17, 22, 7, 12, 17, 22, 7, 12, 17, 22, 7, 12, 17, 22,
      5, 9, 14, 20, 5, 9, 14, 20, 5, 9, 14, 20, 5, 9, 14, 20,
      4, 11, 16, 23, 4, 11, 16, 23, 4, 11, 16, 23, 4, 11, 16, 23,
      6, 10, 15, 21, 6, 10, 15, 21, 6, 10, 15, 21, 6, 10, 15, 21]"

type_synonym md5_state = "32 word \<times> 32 word \<times> 32 word \<times> 32 word"

definition md5_round :: "32 word list \<Rightarrow> nat \<Rightarrow> md5_state \<Rightarrow> md5_state" where
  "md5_round m i st =
     (case st of (a, b, c, d) \<Rightarrow>
        (let (f, g) =
           (if i < 16 then ((b AND c) OR (NOT b AND d), i)
            else if i < 32 then ((d AND b) OR (NOT d AND c), (5 * i + 1) mod 16)
            else if i < 48 then (b XOR c XOR d, (3 * i + 5) mod 16)
            else (c XOR (b OR NOT d), (7 * i) mod 16))
         in (d, b + word_rotl (md5_S ! i) (f + a + md5_K ! i + m ! g), b, c)))"

fun le32 :: "8 word list \<Rightarrow> 32 word" where
  "le32 [] = 0"
| "le32 (b # bs) = ucast b + push_bit 8 (le32 bs)"

fun chunk_words :: "nat \<Rightarrow> 8 word list \<Rightarrow> 32 word list" where
  "chunk_words 0 bs = []"
| "chunk_words (Suc n) bs = le32 (take 4 bs) # chunk_words n (drop 4 bs)"

definition md5_chunk :: "md5_state \<Rightarrow> 8 word list \<Rightarrow> md5_state" where
  "md5_chunk st bs =
     (case st of (a0, b0, c0, d0) \<Rightarrow>
        (case fold (md5_round (chunk_words 16 bs)) [0..<64] st of
           (a, b, c, d) \<Rightarrow> (a0 + a, b0 + b, c0 + c, d0 + d)))"

fun md5_chunks :: "nat \<Rightarrow> md5_state \<Rightarrow> 8 word list \<Rightarrow> md5_state" where
  "md5_chunks 0 st bs = st"
| "md5_chunks (Suc n) st bs = md5_chunks n (md5_chunk st (take 64 bs)) (drop 64 bs)"

definition le_bytes32 :: "32 word \<Rightarrow> 8 word list" where
  "le_bytes32 w = map (\<lambda>k. ucast (drop_bit (8 * k) w)) [0..<4]"

definition le_bytes64 :: "64 word \<Rightarrow> 8 word list" where
  "le_bytes64 w = map (\<lambda>k. ucast (drop_bit (8 * k) w)) [0..<8]"

definition md5_pad :: "8 word list \<Rightarrow> 8 word list" where
  "md5_pad bs =
     (let n = length bs
      in bs @ [0x80] @ replicate ((119 - n mod 64) mod 64) 0 @ le_bytes64 (8 * of_nat n))"

definition md5_bytes :: "8 word list \<Rightarrow> 8 word list" where
  "md5_bytes bs =
     (let p = md5_pad bs
      in case md5_chunks (length p div 64) (0x67452301, 0xefcdab89, 0x98badcfe, 0x10325476) p of
           (a, b, c, d) \<Rightarrow> concat (map le_bytes32 [a, b, c, d]))"

definition md5_utf8 :: digest where
  "md5_utf8 s = foldl (\<lambda>acc b. push_bit 8 acc + ucast b) 0 (md5_bytes (utf8 s))"

section \<open>Script loader\<close>

text \<open>The file system as the loader sees it: \<open>readDir dir\<close> lists a directory,
  \<open>readFile dir f\<close> stands for \<open>readFile(Path.join(dir, f), {encoding: 'utf8'})\<close>;
  either may fail.\<close>

record filesystem =
  readDir :: "jsstring \<Rightarrow> error + jsstring list"
  readFile :: "jsstring \<Rightarrow> jsstring \<Rightarrow> error + jsstring"

text \<open>The object built by the constructor \<open>PgMayflower\<close> (lines 23-32).\<close>

record PgMayflower =
  connectionString :: jsstring
  directory :: jsstring
  table :: jsstring
  schema :: jsstring
  tableExists :: bool

definition schemaAndTable :: "PgMayflower \<Rightarrow> jsstring" where
  "schemaAndTable this = schema this @ js ''.'' @ table this"

text \<open>\<open>getScript\<close> (lines 108-113).\<close>

definition getScript ::
  "filesystem \<Rightarrow> digest \<Rightarrow> PgMayflower \<Rightarrow> jsstring \<Rightarrow> error + sql_script" where
  "getScript fs md5 this nm =
     (case readFile fs (directory this) nm of
        Inl e \<Rightarrow> Inl e
      | Inr text \<Rightarrow> SqlScript md5 nm text)"

text \<open>The second loop of \<open>getAllScripts\<close> (lines 94-99): a script is pushed when its
  \<open>sql\<close> is truthy, that is, not the empty string.\<close>

fun loadScripts ::
  "filesystem \<Rightarrow> digest \<Rightarrow> PgMayflower \<Rightarrow> jsstring list \<Rightarrow> sql_script list
     \<Rightarrow> error + sql_script list" where
  "loadScripts fs md5 this [] scripts = Inr scripts"
| "loadScripts fs md5 this (n # names) scripts =
     (case getScript fs md5 this n of
        Inl e \<Rightarrow> Inl e
      | Inr s \<Rightarrow> loadScripts fs md5 this names (if sql s \<noteq> [] then scripts @ [s] else scripts))"

text \<open>\<open>getAllScripts\<close> (lines 78-102).\<close>

definition getAllScripts ::
  "filesystem \<Rightarrow> digest \<Rightarrow> PgMayflower \<Rightarrow> error + sql_script list" where
  "getAllScripts fs md5 this =
     (case readDir fs (directory this) of
        Inl e \<Rightarrow> Inl e
      | Inr files \<Rightarrow> loadScripts fs md5 this (sort (filter sqlExt_test files)) [])"

section \<open>The database connection\<close>

text \<open>A row of the bookkeeping table, as created at lines 63-70 (the column \<open>hash\<close> is
  the primary key, \<open>filename\<close> is unique).\<close>

record row =
  row_hash :: jsstring
  filename :: jsstring
  execution_date :: nat
  duration :: nat

text \<open>What \<open>db.query_\<close> resolves to.\<close>

record sql_result =
  rowCount :: nat
  rows :: "row list"

text \<open>The statements the engine sends, one constructor for each call of \<open>db.query_\<close> in
  the source, with the values it binds. \<open>Script\<close> is the text of a migration, sent as it
  is (line 181); the engine never looks into it.\<close>

datatype statement =
    SelectTable jsstring jsstring                 \<comment> \<open>lines 51-52: schema, table\<close>
  | CreateTable jsstring                          \<comment> \<open>lines 63-71: schema.table\<close>
  | SelectByHash jsstring jsstring                \<comment> \<open>line 136: schema.table, hash\<close>
  | UpdateFilename jsstring jsstring jsstring     \<comment> \<open>lines 148-149: schema.table, filename, hash\<close>
  | SelectByFilename jsstring jsstring            \<comment> \<open>line 163: schema.table, filename\<close>
  | Begin                                         \<comment> \<open>line 175\<close>
  | Script jsstring                               \<comment> \<open>line 181\<close>
  | UpdateHash jsstring jsstring nat nat jsstring \<comment> \<open>lines 193, 200: schema.table, hash, date, duration, filename\<close>
  | Insert jsstring jsstring nat nat jsstring     \<comment> \<open>lines 197, 200: schema.table, hash, date, duration, filename\<close>
  | Commit                                        \<comment> \<open>line 203\<close>
  | Rollback                                      \<comment> \<open>lines 203, 209\<close>

text \<open>The text of each statement, as the source builds it.\<close>

fun sql_text :: "statement \<Rightarrow> jsstring" where
  "sql_text (SelectTable s t) =
     js ''SELECT * FROM information_schema.tables WHERE table_schema = $1 AND table_name = $2;''"
| "sql_text (CreateTable st) =
     js ''CREATE TABLE '' @ st @ js '' ('' @ js ''   hash character varying(40),''
       @ js ''   filename character varying(260),''
       @ js ''   execution_date timestamp with time zone,'' @ js ''   duration integer,''
       @ js ''   CONSTRAINT pk_migrations PRIMARY KEY (hash),''
       @ js ''   CONSTRAINT ux_migrations_filename UNIQUE (filename)'' @ js '');''"
| "sql_text (SelectByHash st h) = js ''select * from '' @ st @ js '' where hash = $1;''"
| "sql_text (UpdateFilename st f h) =
     js ''update '' @ st @ js '' set filename = $1 where hash = $2;''"
| "sql_text (SelectByFilename st f) = js ''select * from '' @ st @ js '' where filename = $1;''"
| "sql_text Begin = js ''BEGIN''"
| "sql_text (Script text) = text"
| "sql_text (UpdateHash st h d t f) =
     js ''update '' @ st
       @ js '' set hash = $1, execution_date = $2, duration = $3 where filename = $4;''"
| "sql_text (Insert st h d t f) =
     js ''insert into '' @ st
       @ js '' (hash, execution_date, duration, filename) values ($1, $2, $3, $4);''"
| "sql_text Commit = js ''COMMIT''"
| "sql_text Rollback = js ''ROLLBACK''"

text \<open>The statements that leave something behind when they succeed outside a transaction
  that is rolled back: creating the table, writing a row, committing.\<close>

fun persists :: "statement \<Rightarrow> bool" where
  "persists (CreateTable st) = True"
| "persists (UpdateFilename st f h) = True"
| "persists (UpdateHash st h d t f) = True"
| "persists (Insert st h d t f) = True"
| "persists Commit = True"
| "persists q = False"

text \<open>The statements of the apply step that belong to the \<open>try\<close> block and do the work:
  the script, the ledger write, the commit.\<close>

fun applies :: "statement \<Rightarrow> bool" where
  "applies (Script text) = True"
| "applies (UpdateHash st h d t f) = True"
| "applies (Insert st h d t f) = True"
| "applies Commit = True"
| "applies q = False"

text \<open>
  The database server is outside the program. It is a parameter: a function from its
  state \<open>'b\<close> and a statement to the reply, an error or a result, and its next state. The
  connection object keeps the transcript of the statements sent with their replies.
\<close>

type_synonym 'b server = "'b \<Rightarrow> statement \<Rightarrow> (error + sql_result) \<times> 'b"

record 'b connection =
  log :: "(statement \<times> (error + sql_result)) list"
  ended :: bool
  backend :: 'b

text \<open>\<open>yield db.query_(sql, params)\<close>\<close>

definition db_query ::
  "'b server \<Rightarrow> 'b connection \<Rightarrow> statement \<Rightarrow> (error + sql_result) \<times> 'b connection" where
  "db_query srv db q =
     (case srv (backend db) q of
        (reply, b) \<Rightarrow> (reply, db\<lparr>log := log db @ [(q, reply)], backend := b\<rparr>))"

text \<open>The part of the transcript written between two states of the connection.\<close>

definition issued ::
  "'b connection \<Rightarrow> 'b connection \<Rightarrow> (statement \<times> (error + sql_result)) list" where
  "issued db db' = drop (length (log db)) (log db')"

section \<open>Migration engine\<close>

text \<open>The run configuration. \<open>preview\<close> and \<open>force\<close> are only ever tested for truthiness
  (a missing field counts as false). \<open>output_flag\<close> is the field \<open>output\<close>, which line 228
  compares with \<open>undefined\<close>: that is \<open>None\<close> here.\<close>

record options =
  preview :: bool
  force :: bool
  output_flag :: "bool option"

text \<open>\<open>MigrationResult\<close> (lines 292-298); \<open>res_name\<close> is its field \<open>name\<close>.\<close>

record migration_result =
  res_name :: jsstring
  skipped :: bool
  runtime :: nat
  message :: jsstring

definition MigrationResult :: "jsstring \<Rightarrow> migration_result" where
  "MigrationResult nm = \<lparr>res_name = nm, skipped = True, runtime = 0, message = []\<rparr>"

text \<open>What the process clock gives during one call of \<open>migrate\<close>: \<open>elapsed\<close> is the pair
  \<open>[seconds, nanoseconds]\<close> returned by \<open>process.hrtime(start)\<close>, \<open>now\<close> is \<open>new Date()\<close>
  in milliseconds.\<close>

record clock =
  elapsed :: "nat \<times> nat"
  now :: nat

text \<open>\<open>Math.round((duration[0] * 1000) + (duration[1] / 1000000))\<close> (line 185), in exact
  arithmetic.\<close>

definition round_millis :: "nat \<times> nat \<Rightarrow> nat" where
  "round_millis d = (fst d * 1000 * 1000000 + snd d + 500000) div 1000000"

text \<open>\<open>createMigrationsTable\<close> (lines 46-73).\<close>

definition createMigrationsTable ::
  "'b server \<Rightarrow> PgMayflower \<Rightarrow> 'b connection \<Rightarrow> options
     \<Rightarrow> (error + unit) \<times> PgMayflower \<times> 'b connection" where
  "createMigrationsTable srv this db opts =
     (if tableExists this then (Inr (), this, db)
      else
        (case db_query srv db (SelectTable (schema this) (table this)) of
           (Inl e, db1) \<Rightarrow> (Inl e, this, db1)
         | (Inr result, db1) \<Rightarrow>
             if 0 < rowCount result then (Inr (), this\<lparr>tableExists := True\<rparr>, db1)
             else if preview opts then (Inr (), this, db1)
             else
               (case db_query srv db1 (CreateTable (schemaAndTable this)) of
                  (Inl e, db2) \<Rightarrow> (Inl e, this, db2)
                | (Inr created, db2) \<Rightarrow> (Inr (), this\<lparr>tableExists := True\<rparr>, db2))))"

text \<open>Lines 127-137 of \<open>migrate\<close>: the lookup by hash. In preview mode, with no table,
  the engine pretends the table is there and empty, and sends nothing.\<close>

definition byHash ::
  "'b server \<Rightarrow> PgMayflower \<Rightarrow> options \<Rightarrow> sql_script \<Rightarrow> 'b connection
     \<Rightarrow> (error + sql_result) \<times> 'b connection" where
  "byHash srv this opts script db =
     (if \<not> tableExists this \<and> preview opts then (Inr \<lparr>rowCount = 0, rows = []\<rparr>, db)
      else db_query srv db (SelectByHash (schemaAndTable this) (hash script)))"

text \<open>Lines 156-164 of \<open>migrate\<close>: the lookup by filename.\<close>

definition byFilename ::
  "'b server \<Rightarrow> PgMayflower \<Rightarrow> options \<Rightarrow> sql_script \<Rightarrow> 'b connection
     \<Rightarrow> (error + sql_result) \<times> 'b connection" where
  "byFilename srv this opts script db =
     (if \<not> tableExists this \<and> preview opts then (Inr \<lparr>rowCount = 0, rows = []\<rparr>, db)
      else db_query srv db (SelectByFilename (schemaAndTable this) (name script)))"

text \<open>The messages of lines 145, 169 and 205.\<close>

definition renamed_message :: "sql_script \<Rightarrow> jsstring" where
  "renamed_message script = js ''Filename has changed in the database; updating '' @ name script"

definition conflict_message :: "sql_script \<Rightarrow> jsstring" where
  "conflict_message script =
     js ''Failed to migrate: '' @ name script @ js '' (Hash: '' @ hash script
       @ js '') - the file was already migrated in the past, to force migration use options.force''"

definition success_message :: "sql_script \<Rightarrow> jsstring" where
  "success_message script = js ''Successfully migrated '' @ name script"

text \<open>The \<open>try\<close> block of \<open>migrate\<close> (lines 181-205); \<open>Inl\<close> is the exception that
  reaches the \<open>catch\<close>.\<close>

definition migrate_try ::
  "'b server \<Rightarrow> clock \<Rightarrow> PgMayflower \<Rightarrow> options \<Rightarrow> sql_script \<Rightarrow> bool \<Rightarrow> migration_result
     \<Rightarrow> 'b connection \<Rightarrow> (error + migration_result) \<times> 'b connection" where
  "migrate_try srv clk this opts script exists res db =
     (case db_query srv db (Script (sql script)) of
        (Inl ex, db1) \<Rightarrow> (Inl ex, db1)
      | (Inr executed, db1) \<Rightarrow>
          (let res1 = res\<lparr>runtime := round_millis (elapsed clk)\<rparr>
           in case (if tableExists this \<and> \<not> preview opts
                    then db_query srv db1
                           (if exists
                            then UpdateHash (schemaAndTable this) (hash script) (now clk)
                                   (runtime res1) (name script)
                            else Insert (schemaAndTable this) (hash script) (now clk)
                                   (runtime res1) (name script))
                    else (Inr executed, db1)) of
                (Inl ex, db2) \<Rightarrow> (Inl ex, db2)
              | (Inr marked, db2) \<Rightarrow>
                  (case db_query srv db2 (if preview opts then Rollback else Commit) of
                     (Inl ex, db3) \<Rightarrow> (Inl ex, db3)
                   | (Inr done, db3) \<Rightarrow>
                       (Inr (res1\<lparr>skipped := False, message := success_message script\<rparr>),
                        db3))))"

text \<open>Lines 174-213 of \<open>migrate\<close>: \<open>BEGIN\<close>, the \<open>try\<close> block, and the \<open>catch\<close> that
  sends \<open>ROLLBACK\<close> and throws the exception again. An error of \<open>BEGIN\<close> is outside the
  \<open>try\<close>; an error of the \<open>ROLLBACK\<close> in the \<open>catch\<close> takes the place of the first
  one.\<close>

definition migrate_apply ::
  "'b server \<Rightarrow> clock \<Rightarrow> PgMayflower \<Rightarrow> options \<Rightarrow> sql_script \<Rightarrow> bool \<Rightarrow> migration_result
     \<Rightarrow> 'b connection \<Rightarrow> (error + migration_result) \<times> 'b connection" where
  "migrate_apply srv clk this opts script exists res db =
     (case db_query srv db Begin of
        (Inl e, db1) \<Rightarrow> (Inl e, db1)
      | (Inr begun, db1) \<Rightarrow>
          (case migrate_try srv clk this opts script exists res db1 of
             (Inr res', db2) \<Rightarrow> (Inr res', db2)
           | (Inl ex, db2) \<Rightarrow>
               (case db_query srv db2 Rollback of
                  (Inl e, db3) \<Rightarrow> (Inl e, db3)
                | (Inr undone, db3) \<Rightarrow> (Inl ex, db3))))"

text \<open>\<open>migrate\<close> (lines 120-214). \<open>sqlResult.rows[0]\<close> of an empty \<open>rows\<close> is
  \<open>undefined\<close>, and reading \<open>r.filename\<close> then raises a TypeError.\<close>

definition migrate ::
  "'b server \<Rightarrow> clock \<Rightarrow> PgMayflower \<Rightarrow> options \<Rightarrow> sql_script \<Rightarrow> 'b connection
     \<Rightarrow> (error + migration_result) \<times> PgMayflower \<times> 'b connection" where
  "migrate srv clk this opts script db =
     (let res = MigrationResult (name script)
      in case createMigrationsTable srv this db opts of
           (Inl e, this1, db1) \<Rightarrow> (Inl e, this1, db1)
         | (Inr ensured, this1, db1) \<Rightarrow>
             (case byHash srv this1 opts script db1 of
                (Inl e, db2) \<Rightarrow> (Inl e, this1, db2)
              | (Inr sqlResult, db2) \<Rightarrow>
                  if 0 < rowCount sqlResult then
                    (case rows sqlResult of
                       [] \<Rightarrow> (Inl TypeError, this1, db2)
                     | r # others \<Rightarrow>
                         if filename r \<noteq> name script then
                           (let res1 = res\<lparr>message := renamed_message script\<rparr>
                            in if \<not> preview opts then
                                 (case db_query srv db2
                                         (UpdateFilename (schemaAndTable this1) (name script)
                                            (hash script)) of
                                    (Inl e, db3) \<Rightarrow> (Inl e, this1, db3)
                                  | (Inr updated, db3) \<Rightarrow> (Inr res1, this1, db3))
                               else (Inr res1, this1, db2))
                         else (Inr res, this1, db2))
                  else
                    (case byFilename srv this1 opts script db2 of
                       (Inl e, db3) \<Rightarrow> (Inl e, this1, db3)
                     | (Inr sqlResult2, db3) \<Rightarrow>
                         if 0 < rowCount sqlResult2 \<and> \<not> force opts
                         then (Inl (Error (conflict_message script)), this1, db3)
                         else
                           (case migrate_apply srv clk this1 opts script
                                   (0 < rowCount sqlResult2) res db3 of
                              (out, db4) \<Rightarrow> (out, this1, db4)))))"

section \<open>Batch runner\<close>

text \<open>Lines 222-229 of \<open>migrateAll\<close>: an argument that is missing or not an object is
  replaced by a fresh \<open>{}\<close>; an object without \<open>output\<close> gets \<open>output = true\<close> assigned,
  in place.\<close>

definition defaultOptions :: "options option \<Rightarrow> options" where
  "defaultOptions arg =
     (let opts = (case arg of None \<Rightarrow> \<lparr>preview = False, force = False, output_flag = None\<rparr>
                  | Some given \<Rightarrow> given)
      in if output_flag opts = None then opts\<lparr>output_flag := Some True\<rparr> else opts)"

text \<open>The loop of lines 243-247; \<open>clocks i\<close> is the clock during the call for script
  \<open>i\<close>. An exception leaves the loop at once.\<close>

fun migrateLoop ::
  "'b server \<Rightarrow> (nat \<Rightarrow> clock) \<Rightarrow> PgMayflower \<Rightarrow> options \<Rightarrow> sql_script list \<Rightarrow> nat
     \<Rightarrow> migration_result list \<Rightarrow> 'b connection
     \<Rightarrow> (error + migration_result list) \<times> PgMayflower \<times> 'b connection" where
  "migrateLoop srv clocks this opts [] i results db = (Inr results, this, db)"
| "migrateLoop srv clocks this opts (s # scripts) i results db =
     (case migrate srv (clocks i) this opts s db of
        (Inl ex, this1, db1) \<Rightarrow> (Inl ex, this1, db1)
      | (Inr r, this1, db1) \<Rightarrow>
          migrateLoop srv clocks this1 opts scripts (Suc i) (results @ [r]) db1)"

text \<open>Lines 259-277: what is written to the console after a run without error.\<close>

definition report :: "options \<Rightarrow> migration_result list \<Rightarrow> jsstring list" where
  "report opts results =
     (if output_flag opts = Some True then
        map message (filter (\<lambda>r. message r \<noteq> []) results)
          @ (if 0 < length (filter skipped results)
             then [js_of_nat (length (filter skipped results))
                     @ js '' previously applied migrations were skipped.'']
             else [])
      else [])"

text \<open>What a call of \<open>migrateAll\<close> leaves: the value returned or the exception thrown,
  the caller's options object after the call (\<open>None\<close> when the caller passed none), the
  engine object, the connection (\<open>None\<close> when none was opened) and the console lines.\<close>

record 'b run =
  returned :: "error + migration_result list"
  caller_options :: "options option"
  self :: PgMayflower
  conn :: "'b connection option"
  console :: "jsstring list"

text \<open>\<open>migrateAll\<close> (lines 220-280). \<open>db_connect\<close> stands for \<open>new Pg.Client\<close> and
  \<open>db.connect_()\<close>. The exceptions of the model are all objects, so \<open>if (error)\<close> of line
  256 holds whenever one was caught.\<close>

definition migrateAll ::
  "filesystem \<Rightarrow> digest \<Rightarrow> (jsstring \<Rightarrow> error + 'b) \<Rightarrow> 'b server \<Rightarrow> (nat \<Rightarrow> clock)
     \<Rightarrow> PgMayflower \<Rightarrow> options option \<Rightarrow> 'b run" where
  "migrateAll fs md5 db_connect srv clocks this arg =
     (let opts = defaultOptions arg;
          caller = (case arg of None \<Rightarrow> None | Some given \<Rightarrow> Some opts)
      in case getAllScripts fs md5 this of
           Inl e \<Rightarrow>
             \<lparr>returned = Inl e, caller_options = caller, self = this, conn = None, console = []\<rparr>
         | Inr scripts \<Rightarrow>
             (case db_connect (connectionString this) of
                Inl e \<Rightarrow>
                  \<lparr>returned = Inl e, caller_options = caller, self = this, conn = None,
                   console = []\<rparr>
              | Inr b \<Rightarrow>
                  (case migrateLoop srv clocks this opts scripts 0 []
                          \<lparr>log = [], ended = False, backend = b\<rparr> of
                     (Inl error, this1, db1) \<Rightarrow>
                       \<lparr>returned = Inl error, caller_options = caller, self = this1,
                        conn = Some (db1\<lparr>ended := True\<rparr>), console = []\<rparr>
                   | (Inr results, this1, db1) \<Rightarrow>
                       \<lparr>returned = Inr results, caller_options = caller, self = this1,
                        conn = Some (db1\<lparr>ended := True\<rparr>),
                        console = report opts results\<rparr>)))"

section \<open>A reference database\<close>

text \<open>
  The general theorems hold for every server. The concrete runs, and the statements about
  what is in the ledger afterwards, use this small database: the bookkeeping table with
  its two constraints, the scripts whose effects are in the database, and the state to
  return to on \<open>ROLLBACK\<close>. A script succeeds when \<open>valid\<close> says so.
\<close>

record pg =
  ledger :: "row list option"
  effects :: "jsstring list"
  saved :: "(row list option \<times> jsstring list) option"

definition done_result :: "nat \<Rightarrow> sql_result" where
  "done_result n = \<lparr>rowCount = n, rows = []\<rparr>"

definition no_relation :: error where
  "no_relation = DbError (js ''relation does not exist'')"

definition unique_violation :: error where
  "unique_violation = DbError (js ''duplicate key value violates unique constraint'')"

fun pg_server :: "(jsstring \<Rightarrow> bool) \<Rightarrow> pg server" where
  "pg_server valid st (SelectTable s t) =
     (Inr (done_result (case ledger st of None \<Rightarrow> 0 | Some rs \<Rightarrow> 1)), st)"
| "pg_server valid st (CreateTable t) =
     (case ledger st of
        None \<Rightarrow> (Inr (done_result 0), st\<lparr>ledger := Some []\<rparr>)
      | Some rs \<Rightarrow> (Inl (DbError (js ''relation already exists'')), st))"
| "pg_server valid st (SelectByHash t h) =
     (case ledger st of
        None \<Rightarrow> (Inl no_relation, st)
      | Some rs \<Rightarrow>
          (Inr \<lparr>rowCount = length (filter (\<lambda>r. row_hash r = h) rs),
                rows = filter (\<lambda>r. row_hash r = h) rs\<rparr>, st))"
| "pg_server valid st (SelectByFilename t f) =
     (case ledger st of
        None \<Rightarrow> (Inl no_relation, st)
      | Some rs \<Rightarrow>
          (Inr \<lparr>rowCount = length (filter (\<lambda>r. filename r = f) rs),
                rows = filter (\<lambda>r. filename r = f) rs\<rparr>, st))"
| "pg_server valid st (UpdateFilename t f h) =
     (case ledger st of
        None \<Rightarrow> (Inl no_relation, st)
      | Some rs \<Rightarrow>
          if list_ex (\<lambda>r. row_hash r = h) rs
               \<and> list_ex (\<lambda>r. filename r = f \<and> row_hash r \<noteq> h) rs
          then (Inl unique_violation, st)
          else (Inr (done_result (length (filter (\<lambda>r. row_hash r = h) rs))),
                st\<lparr>ledger :=
                     Some (map (\<lambda>r. if row_hash r = h then r\<lparr>filename := f\<rparr> else r) rs)\<rparr>))"
| "pg_server valid st (UpdateHash t h d ms f) =
     (case ledger st of
        None \<Rightarrow> (Inl no_relation, st)
      | Some rs \<Rightarrow>
          if list_ex (\<lambda>r. filename r = f) rs
               \<and> list_ex (\<lambda>r. row_hash r = h \<and> filename r \<noteq> f) rs
          then (Inl unique_violation, st)
          else (Inr (done_result (length (filter (\<lambda>r. filename r = f) rs))),
                st\<lparr>ledger :=
                     Some (map (\<lambda>r. if filename r = f
                                     then r\<lparr>row_hash := h, execution_date := d, duration := ms\<rparr>
                                     else r) rs)\<rparr>))"
| "pg_server valid st (Insert t h d ms f) =
     (case ledger st of
        None \<Rightarrow> (Inl no_relation, st)
      | Some rs \<Rightarrow>
          if list_ex (\<lambda>r. row_hash r = h) rs \<or> list_ex (\<lambda>r. filename r = f) rs
          then (Inl unique_violation, st)
          else (Inr (done_result 1),
                st\<lparr>ledger :=
                     Some (rs @ [\<lparr>row_hash = h, filename = f, execution_date = d,
                                  duration = ms\<rparr>])\<rparr>))"
| "pg_server valid st Begin =
     (Inr (done_result 0),
      case saved st of None \<Rightarrow> st\<lparr>saved := Some (ledger st, effects st)\<rparr> | Some keep \<Rightarrow> st)"
| "pg_server valid st (Script text) =
     (if valid text then (Inr (done_result 0), st\<lparr>effects := effects st @ [text]\<rparr>)
      else (Inl (DbError (js ''syntax error'')), st))"
| "pg_server valid st Commit = (Inr (done_result 0), st\<lparr>saved := None\<rparr>)"
| "pg_server valid st Rollback =
     (Inr (done_result 0),
      case saved st of
        None \<Rightarrow> st
      | Some (l, e) \<Rightarrow> st\<lparr>ledger := l, effects := e, saved := None\<rparr>)"

text \<open>A connection that has just been opened on the database \<open>st\<close>.\<close>

definition fresh :: "pg \<Rightarrow> pg connection" where
  "fresh st = \<lparr>log = [], ended = False, backend = st\<rparr>"

section \<open>Vocabulary of the statements and concrete data\<close>

text \<open>An entry of the transcript whose reply is an error.\<close>

definition failed :: "statement \<times> (error + sql_result) \<Rightarrow> bool" where
  "failed e = isl (snd e)"

text \<open>The data of the concrete runs: an engine object as the constructor leaves it, a
  clock, a directory, two scripts with the same text \<open>SELECT 1;\<close> under different names,
  a script that changes the text of the first one in place, and the ledger row of the
  first script.\<close>

definition ex_this :: PgMayflower where
  "ex_this = \<lparr>connectionString = js ''postgres://localhost/app'', directory = js ''migrations'',
              table = js ''migrations'', schema = js ''public'', tableExists = False\<rparr>"

definition ex_clock :: clock where
  "ex_clock = \<lparr>elapsed = (0, 4600000), now = 1000\<rparr>"

definition ex_fs :: filesystem where
  "ex_fs = \<lparr>readDir = (\<lambda>d. Inr [js ''9.sql'', js ''10.sql'', js ''notes.txt'', js ''2.sql'']),
            readFile = (\<lambda>d f. if f = js ''2.sql'' then Inr (js ''  '')
                                else Inr (js ''SELECT 1;''))\<rparr>"

definition script_a :: sql_script where
  "script_a = \<lparr>name = js ''001_a.sql'', sql = js ''SELECT 1;'',
               hash = js ''71568061-b297-0a4b-7c51-60fe75356e10''\<rparr>"

definition script_b :: sql_script where
  "script_b = \<lparr>name = js ''002_b.sql'', sql = js ''SELECT 1;'',
               hash = js ''71568061-b297-0a4b-7c51-60fe75356e10''\<rparr>"

definition script_a2 :: sql_script where
  "script_a2 = \<lparr>name = js ''001_a.sql'', sql = js ''SELECT 2;'',
                hash = js ''6c7e3642-2f79-6966-02e1-9079534b4076''\<rparr>"

definition row_a :: row where
  "row_a = \<lparr>row_hash = js ''71568061-b297-0a4b-7c51-60fe75356e10'', filename = js ''001_a.sql'',
            execution_date = 1000, duration = 5\<rparr>"

definition pg_empty :: pg where
  "pg_empty = \<lparr>ledger = None, effects = [], saved = None\<rparr>"

definition pg_applied :: pg where
  "pg_applied = \<lparr>ledger = Some [row_a], effects = [js ''SELECT 1;''], saved = None\<rparr>"

section \<open>Properties of the hashing\<close>

lemma length_digest_hex: "length (digest_hex w) = 32"
  by (simp add: digest_hex_def)

lemma hexdigit_in_alphabet: "hexdigit n \<in> set hex_alphabet"
proof -
  have "unat n < 2 ^ LENGTH(4)" by (rule unsigned_less)
  then have "unat n < length hex_alphabet" by (simp add: hex_alphabet_def js_def)
  then show ?thesis unfolding hexdigit_def by (rule nth_mem)
qed

lemma alphabet_no_line_terminator: "c \<in> set hex_alphabet \<Longrightarrow> \<not> isLineTerminator c"
  by (auto simp: hex_alphabet_def js_def isLineTerminator_def)

lemma digest_hex_no_line_terminator: "list_all (\<lambda>c. \<not> isLineTerminator c) (digest_hex w)"
  unfolding list_all_iff digest_hex_def
  using hexdigit_in_alphabet alphabet_no_line_terminator by auto

lemma getHash_eq: "getHash md5 s = Inr (guid_parts (digest_hex (md5 s)))"
  by (simp add: getHash_def length_digest_hex digest_hex_no_line_terminator)

lemma SqlScript_eq:
  "SqlScript md5 nm text =
     Inr \<lparr>name = nm, sql = trim text, hash = guid_parts (digest_hex (md5 (replace_crlf text)))\<rparr>"
  by (simp add: SqlScript_def getHash_eq)

lemma md5_select1:
  "guid_parts (digest_hex (md5_utf8 (js ''SELECT 1;''))) = js ''71568061-b297-0a4b-7c51-60fe75356e10''"
  by code_simp

lemma md5_select1_lf:
  "guid_parts (digest_hex (md5_utf8 (js ''SELECT 1;'' @ [0x000A]))) = js ''2bdf1665-f56c-0ce5-b966-d9c60a7f7eac''"
  by code_simp

lemma md5_select1_crlf:
  "guid_parts (digest_hex (md5_utf8 (js ''SELECT 1;'' @ [0x000D, 0x000A]))) = js ''09ed1537-7e8d-0354-4f14-6af8de7a15c6''"
  by code_simp

lemma example_trims:
  "trim (js ''SELECT 1;'') = js ''SELECT 1;''"
  "trim (js ''SELECT 1;'' @ [0x000A]) = js ''SELECT 1;''"
  "trim (js ''SELECT 1;'' @ [0x000D, 0x000D, 0x000A]) = js ''SELECT 1;''"
  "trim (js ''SELECT 1;'' @ [0x000D, 0x000A]) = js ''SELECT 1;''"
  "trim (js ''  '') = []"
  by (simp_all add: trim_def js_def isWhiteSpace_def isLineTerminator_def)

lemma example_replaces:
  "replace_crlf (js ''SELECT 1;'') = js ''SELECT 1;''"
  "replace_crlf (js ''SELECT 1;'' @ [0x000A]) = js ''SELECT 1;'' @ [0x000A]"
  "replace_crlf (js ''SELECT 1;'' @ [0x000D, 0x000A]) = js ''SELECT 1;'' @ [0x000A]"
  "replace_crlf (js ''SELECT 1;'' @ [0x000D, 0x000D, 0x000A]) = js ''SELECT 1;'' @ [0x000D, 0x000A]"
  by (simp_all add: js_def)

lemma example_hashes_differ:
  "js ''71568061-b297-0a4b-7c51-60fe75356e10'' \<noteq> js ''2bdf1665-f56c-0ce5-b966-d9c60a7f7eac''"
  "js ''09ed1537-7e8d-0354-4f14-6af8de7a15c6'' \<noteq> js ''2bdf1665-f56c-0ce5-b966-d9c60a7f7eac''"
  by (simp_all add: js_def)

subsection \<open>The fingerprint and the trimmed content\<close>

text \<open>
  C5, as stated, fails. The files \<open>001_a.sql\<close> with the text \<open>SELECT 1;\<close> and
  \<open>002_b.sql\<close> with the text \<open>SELECT 1;\<close> followed by a line feed have the same trimmed
  content, the \<open>sql\<close> of both scripts is \<open>SELECT 1;\<close>, and their hashes differ: the
  constructor hashes the text as read, not the trimmed payload. The hashes are the MD5
  digests of the two texts.
\<close>

theorem trimmed_content_fingerprint_counterexample:
  "trim (js ''SELECT 1;'') = trim (js ''SELECT 1;'' @ [0x000A])
   \<and> SqlScript md5_utf8 (js ''001_a.sql'') (js ''SELECT 1;'')
       = Inr \<lparr>name = js ''001_a.sql'', sql = js ''SELECT 1;'',
              hash = js ''71568061-b297-0a4b-7c51-60fe75356e10''\<rparr>
   \<and> SqlScript md5_utf8 (js ''002_b.sql'') (js ''SELECT 1;'' @ [0x000A])
       = Inr \<lparr>name = js ''002_b.sql'', sql = js ''SELECT 1;'',
              hash = js ''2bdf1665-f56c-0ce5-b966-d9c60a7f7eac''\<rparr>
   \<and> js ''71568061-b297-0a4b-7c51-60fe75356e10'' \<noteq> js ''2bdf1665-f56c-0ce5-b966-d9c60a7f7eac''"
  by (simp only: SqlScript_eq example_trims example_replaces md5_select1 md5_select1_lf
      example_hashes_differ simp_thms)

text \<open>
  C5, amended. The fingerprint is a function of the text as read from the file with every
  CRLF replaced by LF, and of nothing else: two scripts whose texts agree after that
  replacement have the same hash, whatever their names. The text is not trimmed before it
  is hashed.
\<close>

theorem fingerprint_function_of_normalized_text:
  "replace_crlf t1 = replace_crlf t2 \<Longrightarrow>
     \<exists>s1 s2. SqlScript md5 n1 t1 = Inr s1 \<and> SqlScript md5 n2 t2 = Inr s2 \<and> hash s1 = hash s2"
  by (simp add: SqlScript_eq)

text \<open>The amended C5 at \<open>001_a.sql\<close> with CRLF and \<open>002_b.sql\<close> with LF line ends.\<close>

theorem fingerprint_function_of_normalized_text_witness:
  "\<exists>s1 s2. SqlScript md5_utf8 (js ''001_a.sql'') (js ''SELECT 1;'' @ [0x000D, 0x000A]) = Inr s1
     \<and> SqlScript md5_utf8 (js ''002_b.sql'') (js ''SELECT 1;'' @ [0x000A]) = Inr s2
     \<and> hash s1 = hash s2"
proof -
  have "replace_crlf (js ''SELECT 1;'' @ [0x000D, 0x000A]) = replace_crlf (js ''SELECT 1;'' @ [0x000A])"
    by (simp only: example_replaces)
  then show ?thesis by (rule fingerprint_function_of_normalized_text)
qed

subsection \<open>The fingerprint and CRLF\<close>

lemma replace_crlf_not_cr: "a \<noteq> 0x000D \<Longrightarrow> replace_crlf (a # xs) = a # replace_crlf xs"
  by (cases xs) simp_all

lemma replace_crlf_not_lf: "x \<noteq> 0x000A \<Longrightarrow> replace_crlf (a # x # xs) = a # replace_crlf (x # xs)"
  by simp

lemma replace_crlf_head:
  "\<exists>x xs. replace_crlf (b # cs) = x # xs \<and> (x = 0x000A \<longleftrightarrow> (b = 0x000A \<or> (b = 0x000D \<and> (\<exists>ds. cs = 0x000A # ds))))"
  by (cases cs) auto

lemma has_cr_crlf_Cons: "has_cr_crlf cs \<Longrightarrow> has_cr_crlf (a # cs)"
  by (cases cs rule: has_cr_crlf.cases) auto

lemma replace_crlf_idem:
  "\<not> has_cr_crlf c \<Longrightarrow> replace_crlf (replace_crlf c) = replace_crlf c"
proof (induction c rule: replace_crlf.induct)
  case (1 a b cs)
  show ?case
  proof (cases "a = 0x000D \<and> b = 0x000A")
    case True
    from "1.prems" have "\<not> has_cr_crlf cs"
      using has_cr_crlf_Cons by blast
    with True "1.IH"(1) have ih: "replace_crlf (replace_crlf cs) = replace_crlf cs" by simp
    have "replace_crlf (0x000A # replace_crlf cs) = 0x000A # replace_crlf (replace_crlf cs)"
      by (rule replace_crlf_not_cr) simp
    with True ih show ?thesis by simp
  next
    case False
    from "1.prems" have nb: "\<not> has_cr_crlf (b # cs)"
      using has_cr_crlf_Cons by blast
    with False "1.IH"(2) have ih: "replace_crlf (replace_crlf (b # cs)) = replace_crlf (b # cs)"
      by simp
    obtain x xs where x: "replace_crlf (b # cs) = x # xs"
      and xeq: "x = 0x000A \<longleftrightarrow> (b = 0x000A \<or> (b = 0x000D \<and> (\<exists>ds. cs = 0x000A # ds)))"
      using replace_crlf_head by blast
    have "replace_crlf (a # x # xs) = a # replace_crlf (x # xs)"
    proof (cases "a = 0x000D")
      case a: True
      have "x \<noteq> 0x000A"
      proof
        assume "x = 0x000A"
        with xeq a False obtain ds where "b = 0x000D" "cs = 0x000A # ds" by auto
        with a "1.prems" show False by simp
      qed
      then show ?thesis by (rule replace_crlf_not_lf)
    next
      case False
      then show ?thesis by (rule replace_crlf_not_cr)
    qed
    moreover have "replace_crlf (a # b # cs) = a # replace_crlf (b # cs)"
      using False by auto
    moreover from ih x have "replace_crlf (x # xs) = x # xs" by simp
    ultimately show ?thesis using x by simp
  qed
qed simp_all

text \<open>
  C6, as stated, fails. The replacement is one pass: in the text \<open>SELECT 1;\<close> followed
  by CR CR LF it leaves CR LF behind, so the fingerprint of the text is the digest of
  \<open>SELECT 1;\<close> CR LF, while the fingerprint of the text with every CRLF replaced by LF is
  the digest of \<open>SELECT 1;\<close> LF.
\<close>

theorem crlf_invariance_counterexample:
  "SqlScript md5_utf8 (js ''001_a.sql'') (js ''SELECT 1;'' @ [0x000D, 0x000D, 0x000A])
     = Inr \<lparr>name = js ''001_a.sql'', sql = js ''SELECT 1;'',
            hash = js ''09ed1537-7e8d-0354-4f14-6af8de7a15c6''\<rparr>
   \<and> SqlScript md5_utf8 (js ''001_a.sql'')
         (replace_crlf (js ''SELECT 1;'' @ [0x000D, 0x000D, 0x000A]))
     = Inr \<lparr>name = js ''001_a.sql'', sql = js ''SELECT 1;'',
            hash = js ''2bdf1665-f56c-0ce5-b966-d9c60a7f7eac''\<rparr>
   \<and> js ''09ed1537-7e8d-0354-4f14-6af8de7a15c6'' \<noteq> js ''2bdf1665-f56c-0ce5-b966-d9c60a7f7eac''"
  by (simp only: SqlScript_eq example_trims example_replaces md5_select1_crlf md5_select1_lf
      example_hashes_differ simp_thms)

text \<open>
  C6, amended. For every content in which no CR stands directly in front of a CRLF pair,
  the fingerprint of the content equals the fingerprint of the content with every CRLF
  replaced by LF.
\<close>

theorem fingerprint_crlf_invariant:
  "\<not> has_cr_crlf c \<Longrightarrow>
     \<exists>s1 s2. SqlScript md5 n c = Inr s1 \<and> SqlScript md5 n (replace_crlf c) = Inr s2
       \<and> hash s1 = hash s2"
  by (simp add: SqlScript_eq replace_crlf_idem)

text \<open>The amended C6 at the text \<open>SELECT 1;\<close> CR LF.\<close>

theorem fingerprint_crlf_invariant_witness:
  "\<exists>s1 s2. SqlScript md5_utf8 (js ''001_a.sql'') (js ''SELECT 1;'' @ [0x000D, 0x000A]) = Inr s1
     \<and> SqlScript md5_utf8 (js ''001_a.sql'') (replace_crlf (js ''SELECT 1;'' @ [0x000D, 0x000A])) = Inr s2
     \<and> hash s1 = hash s2"
proof -
  have "\<not> has_cr_crlf (js ''SELECT 1;'' @ [0x000D, 0x000A])"
    by (simp add: js_def)
  then show ?thesis by (rule fingerprint_crlf_invariant)
qed

section \<open>Properties of the script loader\<close>

lemma loadScripts_all:
  assumes "\<forall>n\<in>set names. readFile fs (directory this) n = Inr (content n)"
  shows "loadScripts fs md5 this names acc =
           Inr (acc @ map (\<lambda>n. \<lparr>name = n, sql = trim (content n),
                                   hash = guid_parts (digest_hex (md5 (replace_crlf (content n))))\<rparr>)
                        (filter (\<lambda>n. trim (content n) \<noteq> []) names))"
  using assms by (induction names arbitrary: acc) (simp_all add: getScript_def SqlScript_eq)

text \<open>
  C7. When the directory can be listed and every file that matches the pattern can be
  read, \<open>getAllScripts\<close> returns one script for each listed name that matches
  \<open>/.+\.sql$/\<close> and whose trimmed text is not empty, and no other; the scripts come in
  ascending order of their names, compared code unit by code unit, so that \<open>10.sql\<close>
  comes before \<open>9.sql\<close>; a file whose trimmed text is empty is left out without an error.
\<close>

theorem getAllScripts_sorted_nonempty_sql:
  assumes "readDir fs (directory this) = Inr files"
    and "\<forall>f\<in>set files. sqlExt_test f \<longrightarrow> readFile fs (directory this) f = Inr (content f)"
  shows "getAllScripts fs md5 this =
           Inr (map (\<lambda>f. \<lparr>name = f, sql = trim (content f),
                           hash = guid_parts (digest_hex (md5 (replace_crlf (content f))))\<rparr>)
                  (filter (\<lambda>f. trim (content f) \<noteq> []) (sort (filter sqlExt_test files))))
         \<and> sorted (filter (\<lambda>f. trim (content f) \<noteq> []) (sort (filter sqlExt_test files)))"
proof -
  let ?names = "sort (filter sqlExt_test files)"
  from assms(2) have "\<forall>n\<in>set ?names. readFile fs (directory this) n = Inr (content n)"
    by simp
  then have "loadScripts fs md5 this ?names [] =
      Inr ([] @ map (\<lambda>n. \<lparr>name = n, sql = trim (content n),
                                   hash = guid_parts (digest_hex (md5 (replace_crlf (content n))))\<rparr>)
                        (filter (\<lambda>n. trim (content n) \<noteq> []) ?names))"
    by (rule loadScripts_all)
  with assms(1) have 1: "getAllScripts fs md5 this =
           Inr (map (\<lambda>f. \<lparr>name = f, sql = trim (content f),
                           hash = guid_parts (digest_hex (md5 (replace_crlf (content f))))\<rparr>)
                  (filter (\<lambda>f. trim (content f) \<noteq> []) ?names))"
    by (simp add: getAllScripts_def)
  have 3: "sorted (filter (\<lambda>f. trim (content f) \<noteq> []) ?names)"
    by (rule sorted_wrt_filter) simp
  from 1 3 show ?thesis by (rule conjI)
qed

lemma example_sort:
  "sort (filter sqlExt_test [js ''9.sql'', js ''10.sql'', js ''notes.txt'', js ''2.sql''])
     = [js ''10.sql'', js ''2.sql'', js ''9.sql'']"
  by (simp add: js_def sqlExt_test_def isLineTerminator_def)

text \<open>C7 at a directory with \<open>9.sql\<close>, \<open>10.sql\<close>, \<open>notes.txt\<close> and a blank \<open>2.sql\<close>.\<close>

theorem getAllScripts_sorted_nonempty_sql_witness:
  "getAllScripts ex_fs md5_utf8 ex_this =
     Inr [\<lparr>name = js ''10.sql'', sql = js ''SELECT 1;'',
            hash = js ''71568061-b297-0a4b-7c51-60fe75356e10''\<rparr>,
          \<lparr>name = js ''9.sql'', sql = js ''SELECT 1;'',
            hash = js ''71568061-b297-0a4b-7c51-60fe75356e10''\<rparr>]"
proof -
  let ?files = "[js ''9.sql'', js ''10.sql'', js ''notes.txt'', js ''2.sql'']"
  let ?content = "\<lambda>f. if f = js ''2.sql'' then js ''  '' else js ''SELECT 1;''"
  have h1: "readDir ex_fs (directory ex_this) = Inr ?files"
    by (simp add: ex_fs_def)
  have h2: "\<forall>f\<in>set ?files. sqlExt_test f \<longrightarrow> readFile ex_fs (directory ex_this) f = Inr (?content f)"
    by (simp add: ex_fs_def)
  have ne: "js ''10.sql'' \<noteq> js ''2.sql''" "js ''9.sql'' \<noteq> js ''2.sql''" "js ''SELECT 1;'' \<noteq> []"
    by (simp_all add: js_def)
  from getAllScripts_sorted_nonempty_sql [OF h1 h2, of md5_utf8] show ?thesis
    unfolding example_sort by (simp add: example_trims example_replaces ne md5_select1)
qed

section \<open>Properties of the migration engine\<close>

lemma db_query_post:
  "db_query srv db q = (r, db1) \<Longrightarrow> log db1 = log db @ [(q, r)] \<and> ended db1 = ended db"
  by (auto simp: db_query_def split: prod.splits)

lemma ensure_post:
  "createMigrationsTable srv this db opts = (r, this1, db1) \<Longrightarrow>
     \<exists>tr. log db1 = log db @ tr \<and> ended db1 = ended db
        \<and> (this1 = this \<or> this1 = this\<lparr>tableExists := True\<rparr>)
        \<and> fst ` set tr \<subseteq> {SelectTable (schema this) (table this), CreateTable (schemaAndTable this)}
        \<and> (preview opts \<longrightarrow> fst ` set tr \<subseteq> {SelectTable (schema this) (table this)})"
  unfolding createMigrationsTable_def
  by (auto split: if_splits prod.splits sum.splits dest!: db_query_post)

lemma byHash_post:
  "byHash srv this opts script db = (r, db1) \<Longrightarrow>
     ended db1 = ended db \<and>
     ((log db1 = log db \<and> r = Inr \<lparr>rowCount = 0, rows = []\<rparr>)
      \<or> log db1 = log db @ [(SelectByHash (schemaAndTable this) (hash script), r)])"
  unfolding byHash_def by (auto split: if_splits dest!: db_query_post)

lemma byFilename_post:
  "byFilename srv this opts script db = (r, db1) \<Longrightarrow>
     ended db1 = ended db \<and>
     ((log db1 = log db \<and> r = Inr \<lparr>rowCount = 0, rows = []\<rparr>)
      \<or> log db1 = log db @ [(SelectByFilename (schemaAndTable this) (name script), r)])"
  unfolding byFilename_def by (auto split: if_splits dest!: db_query_post)

lemma apply_post:
  "migrate_apply srv clk this opts script exists res db = (out, db1) \<Longrightarrow>
     \<exists>tr. log db1 = log db @ tr \<and> ended db1 = ended db \<and> tr \<noteq> []
        \<and> (\<forall>q\<in>fst ` set tr. q = Begin \<or> q = Rollback \<or> applies q)"
  unfolding migrate_apply_def migrate_try_def Let_def
  by (auto split: if_splits prod.splits sum.splits dest!: db_query_post)

lemma issued_append: "log db1 = log db @ tr \<Longrightarrow> issued db db1 = tr"
  by (simp add: issued_def)

lemma schemaAndTable_flag [simp]: "schemaAndTable (this\<lparr>tableExists := b\<rparr>) = schemaAndTable this"
  by (simp add: schemaAndTable_def)

lemma ensure_force:
  "createMigrationsTable srv this db (opts\<lparr>force := b\<rparr>) = createMigrationsTable srv this db opts"
  by (auto simp: createMigrationsTable_def split: prod.splits sum.splits)

lemma migrate_cases:
  assumes run: "migrate srv clk this opts script db = (out, this', db')"
  obtains
    (ensure_error) e tr1 where
      "out = Inl e" "issued db db' = tr1"
      "fst ` set tr1 \<subseteq> {SelectTable (schema this) (table this), CreateTable (schemaAndTable this)}"
      "preview opts \<longrightarrow> fst ` set tr1 \<subseteq> {SelectTable (schema this) (table this)}"
  | (lookup_error) e tr1 where
      "out = Inl e"
      "issued db db' = tr1 @ [(SelectByHash (schemaAndTable this) (hash script), Inl e)]"
      "fst ` set tr1 \<subseteq> {SelectTable (schema this) (table this), CreateTable (schemaAndTable this)}"
      "preview opts \<longrightarrow> fst ` set tr1 \<subseteq> {SelectTable (schema this) (table this)}"
  | (no_row) found tr1 where
      "out = Inl TypeError" "0 < rowCount found" "rows found = []"
      "\<forall>b. migrate srv clk this (opts\<lparr>force := b\<rparr>) script db = (out, this', db')"
      "issued db db' = tr1 @ [(SelectByHash (schemaAndTable this) (hash script), Inr found)]"
      "fst ` set tr1 \<subseteq> {SelectTable (schema this) (table this), CreateTable (schemaAndTable this)}"
      "preview opts \<longrightarrow> fst ` set tr1 \<subseteq> {SelectTable (schema this) (table this)}"
  | (same_name) found r rest tr1 where
      "out = Inr (MigrationResult (name script))" "0 < rowCount found" "rows found = r # rest"
      "filename r = name script"
      "\<forall>b. migrate srv clk this (opts\<lparr>force := b\<rparr>) script db = (out, this', db')"
      "issued db db' = tr1 @ [(SelectByHash (schemaAndTable this) (hash script), Inr found)]"
      "fst ` set tr1 \<subseteq> {SelectTable (schema this) (table this), CreateTable (schemaAndTable this)}"
      "preview opts \<longrightarrow> fst ` set tr1 \<subseteq> {SelectTable (schema this) (table this)}"
  | (renamed_preview) found r rest tr1 where
      "out = Inr ((MigrationResult (name script))\<lparr>message := renamed_message script\<rparr>)"
      "0 < rowCount found" "rows found = r # rest" "filename r \<noteq> name script" "preview opts"
      "\<forall>b. migrate srv clk this (opts\<lparr>force := b\<rparr>) script db = (out, this', db')"
      "issued db db' = tr1 @ [(SelectByHash (schemaAndTable this) (hash script), Inr found)]"
      "fst ` set tr1 \<subseteq> {SelectTable (schema this) (table this)}"
  | (renamed) found r rest tr1 reply where
      "out = (case reply of Inl e \<Rightarrow> Inl e
              | Inr updated \<Rightarrow> Inr ((MigrationResult (name script))\<lparr>message := renamed_message script\<rparr>))"
      "0 < rowCount found" "rows found = r # rest" "filename r \<noteq> name script" "\<not> preview opts"
      "\<forall>b. migrate srv clk this (opts\<lparr>force := b\<rparr>) script db = (out, this', db')"
      "issued db db' = tr1 @ [(SelectByHash (schemaAndTable this) (hash script), Inr found),
          (UpdateFilename (schemaAndTable this) (name script) (hash script), reply)]"
      "fst ` set tr1 \<subseteq> {SelectTable (schema this) (table this), CreateTable (schemaAndTable this)}"
  | (name_error) e tr1 tr2 where
      "out = Inl e"
      "issued db db' = tr1 @ tr2 @ [(SelectByFilename (schemaAndTable this) (name script), Inl e)]"
      "fst ` set tr1 \<subseteq> {SelectTable (schema this) (table this), CreateTable (schemaAndTable this)}"
      "preview opts \<longrightarrow> fst ` set tr1 \<subseteq> {SelectTable (schema this) (table this)}"
      "tr2 = [] \<or> (\<exists>r0. tr2 = [(SelectByHash (schemaAndTable this) (hash script), Inr r0)] \<and> rowCount r0 = 0)"
  | (conflict) byname tr1 tr2 where
      "out = Inl (Error (conflict_message script))" "0 < rowCount byname" "\<not> force opts"
      "issued db db' = tr1 @ tr2 @ [(SelectByFilename (schemaAndTable this) (name script), Inr byname)]"
      "fst ` set tr1 \<subseteq> {SelectTable (schema this) (table this), CreateTable (schemaAndTable this)}"
      "preview opts \<longrightarrow> fst ` set tr1 \<subseteq> {SelectTable (schema this) (table this)}"
      "tr2 = [] \<or> (\<exists>r0. tr2 = [(SelectByHash (schemaAndTable this) (hash script), Inr r0)] \<and> rowCount r0 = 0)"
  | (applying) tr1 tr2 tr3 db3 exists where
      "migrate_apply srv clk this' opts script exists (MigrationResult (name script)) db3 = (out, db')"
      "issued db db' = tr1 @ tr2 @ tr3 @ issued db3 db'"
      "fst ` set tr1 \<subseteq> {SelectTable (schema this) (table this), CreateTable (schemaAndTable this)}"
      "preview opts \<longrightarrow> fst ` set tr1 \<subseteq> {SelectTable (schema this) (table this)}"
      "tr2 = [] \<or> (\<exists>r0. tr2 = [(SelectByHash (schemaAndTable this) (hash script), Inr r0)] \<and> rowCount r0 = 0)"
      "tr3 = [] \<or> (\<exists>r. tr3 = [(SelectByFilename (schemaAndTable this) (name script), Inr r)]
                        \<and> (0 < rowCount r \<longrightarrow> force opts))"
proof -
  obtain r1 this1 db1 where e1: "createMigrationsTable srv this db opts = (r1, this1, db1)"
    using prod_cases3 by blast
  from ensure_post [OF e1] obtain tr1 where l1: "log db1 = log db @ tr1"
    and t1: "this1 = this \<or> this1 = this\<lparr>tableExists := True\<rparr>"
    and s1: "fst ` set tr1 \<subseteq> {SelectTable (schema this) (table this), CreateTable (schemaAndTable this)}"
    and p1: "preview opts \<longrightarrow> fst ` set tr1 \<subseteq> {SelectTable (schema this) (table this)}"
    by blast
  from t1 have T: "schemaAndTable this1 = schemaAndTable this" by auto
  show ?thesis
  proof (cases r1)
    case (Inl e)
    with run e1 have "out = Inl e" "db' = db1" by (simp_all add: migrate_def)
    with l1 s1 p1 show ?thesis by (intro that(1)) (simp_all add: issued_def)
  next
    case ok1: (Inr u)
    obtain r2 db2 where e2: "byHash srv this1 opts script db1 = (r2, db2)" by fastforce
    from byHash_post [OF e2] T have l2:
      "(log db2 = log db1 \<and> r2 = Inr \<lparr>rowCount = 0, rows = []\<rparr>)
        \<or> log db2 = log db1 @ [(SelectByHash (schemaAndTable this) (hash script), r2)]" by simp
    from run e1 ok1 have this': "this' = this1" 
      by (auto simp: migrate_def Let_def e2 split: sum.splits if_splits list.splits prod.splits)
    show ?thesis
    proof (cases r2)
      case (Inl e)
      with run e1 ok1 e2 have "out = Inl e" "db' = db2" by (simp_all add: migrate_def)
      with l1 l2 Inl s1 p1 show ?thesis by (intro that(2)) (auto simp: issued_def)
    next
      case ok2: (Inr found)
      show ?thesis
      proof (cases "0 < rowCount found")
        case True
        have f1: "createMigrationsTable srv this db (opts\<lparr>force := b\<rparr>) = (r1, this1, db1)" for b
          using e1 by (simp add: ensure_force)
        have f2: "byHash srv this1 (opts\<lparr>force := b\<rparr>) script db1 = (r2, db2)" for b
          using e2 by (simp add: byHash_def)
        with l2 ok2 True have l2': "log db2 = log db @ tr1 @ [(SelectByHash (schemaAndTable this) (hash script), Inr found)]"
          using l1 by auto
        show ?thesis
        proof (cases "rows found")
          case Nil
          with run e1 ok1 e2 ok2 True have o: "out = Inl TypeError" "db' = db2" by (simp_all add: migrate_def)
          with this' f1 f2 ok1 ok2 True Nil
          have "\<forall>b. migrate srv clk this (opts\<lparr>force := b\<rparr>) script db = (out, this', db')"
            by (simp add: migrate_def)
          with o l2' s1 p1 True Nil show ?thesis by (intro that(3)) (auto simp: issued_def)
        next
          case (Cons r rest)
          show ?thesis
          proof (cases "filename r = name script")
            case same: True
            with run e1 ok1 e2 ok2 True Cons have o: "out = Inr (MigrationResult (name script))" "db' = db2"
              by (simp_all add: migrate_def)
            with this' f1 f2 ok1 ok2 True Cons same
            have "\<forall>b. migrate srv clk this (opts\<lparr>force := b\<rparr>) script db = (out, this', db')"
              by (simp add: migrate_def)
            with o l2' s1 p1 True Cons same show ?thesis by (intro that(4)) (auto simp: issued_def)
          next
            case diff: False
            show ?thesis
            proof (cases "preview opts")
              case pv: True
              with run e1 ok1 e2 ok2 True Cons diff
              have o: "out = Inr ((MigrationResult (name script))\<lparr>message := renamed_message script\<rparr>)" "db' = db2"
                by (simp_all add: migrate_def)
              with this' f1 f2 ok1 ok2 True Cons diff pv
              have "\<forall>b. migrate srv clk this (opts\<lparr>force := b\<rparr>) script db = (out, this', db')"
                by (simp add: migrate_def)
              with o l2' s1 p1 True Cons diff pv show ?thesis by (intro that(5)) (auto simp: issued_def)
            next
              case npv: False
              obtain reply db3 where e3: "db_query srv db2 (UpdateFilename (schemaAndTable this1) (name script) (hash script)) = (reply, db3)"
                by fastforce
              from db_query_post [OF e3] T have l3: "log db3 = log db2 @ [(UpdateFilename (schemaAndTable this) (name script) (hash script), reply)]"
                by simp
              from run e1 ok1 e2 ok2 True Cons diff npv e3
              have o: "out = (case reply of Inl e \<Rightarrow> Inl e
                  | Inr updated \<Rightarrow> Inr ((MigrationResult (name script))\<lparr>message := renamed_message script\<rparr>))" "db' = db3"
                by (simp_all add: migrate_def split: sum.splits)
              with this' f1 f2 ok1 ok2 True Cons diff npv e3
              have "\<forall>b. migrate srv clk this (opts\<lparr>force := b\<rparr>) script db = (out, this', db')"
                by (simp add: migrate_def split: sum.splits)
              with o l2' l3 s1 True Cons diff npv show ?thesis by (intro that(6)) (auto simp: issued_def)
            qed
          qed
        qed
      next
        case none: False
        from l2 ok2 none obtain tr2 where l2': "log db2 = log db1 @ tr2"
          and c2: "tr2 = [] \<or> (\<exists>r0. tr2 = [(SelectByHash (schemaAndTable this) (hash script), Inr r0)] \<and> rowCount r0 = 0)"
          by auto
        obtain r3 db3 where e3: "byFilename srv this1 opts script db2 = (r3, db3)" by fastforce
        from byFilename_post [OF e3] T have l3:
          "(log db3 = log db2 \<and> r3 = Inr \<lparr>rowCount = 0, rows = []\<rparr>)
            \<or> log db3 = log db2 @ [(SelectByFilename (schemaAndTable this) (name script), r3)]" by simp
        show ?thesis
        proof (cases r3)
          case (Inl e)
          with run e1 ok1 e2 ok2 none e3 have "out = Inl e" "db' = db3" by (simp_all add: migrate_def)
          with l1 l2' l3 Inl s1 p1 c2 show ?thesis by (intro that(7) [of e tr1 tr2]) (auto simp: issued_def)
        next
          case ok3: (Inr byname)
          show ?thesis
          proof (cases "0 < rowCount byname \<and> \<not> force opts")
            case True
            with run e1 ok1 e2 ok2 none e3 ok3 have "out = Inl (Error (conflict_message script))" "db' = db3"
              by (simp_all add: migrate_def)
            with l1 l2' l3 ok3 s1 p1 c2 True show ?thesis by (intro that(8) [of byname tr1 tr2]) (auto simp: issued_def)
          next
            case False
            from l3 ok3 False obtain tr3 where l3': "log db3 = log db2 @ tr3"
              and c3: "tr3 = [] \<or> (\<exists>r. tr3 = [(SelectByFilename (schemaAndTable this) (name script), Inr r)]
                        \<and> (0 < rowCount r \<longrightarrow> force opts))"
              by auto
            from run e1 ok1 e2 ok2 none e3 ok3 False
            have e4: "migrate_apply srv clk this1 opts script (0 < rowCount byname) (MigrationResult (name script)) db3 = (out, db')"
              by (auto simp: migrate_def split: prod.splits)
            from apply_post [OF e4] obtain tr4 where l4: "log db' = log db3 @ tr4" by blast
            from l1 l2' l3' l4 have "issued db db' = tr1 @ tr2 @ tr3 @ issued db3 db'"
              by (simp add: issued_def)
            with e4 this' s1 p1 c2 c3 show ?thesis by (intro that(9) [of _ db3 tr1 tr2 tr3]) auto
          qed
        qed
      qed
    qed
  qed
qed


lemma apply_statements:
  "migrate_apply srv clk this opts script exists res db = (out, db1) \<Longrightarrow>
     \<forall>q\<in>fst ` set (issued db db1). q = Begin \<or> q = Rollback \<or> applies q"
  unfolding migrate_apply_def migrate_try_def Let_def issued_def
  by (auto split: if_splits prod.splits sum.splits dest!: db_query_post)

lemma apply_preview:
  "migrate_apply srv clk this opts script exists res db = (out, db1) \<Longrightarrow> preview opts \<Longrightarrow>
     \<forall>q\<in>fst ` set (issued db db1). \<not> persists q"
  unfolding migrate_apply_def migrate_try_def Let_def issued_def
  by (auto split: if_splits prod.splits sum.splits dest!: db_query_post)

lemma apply_begun:
  "migrate_apply srv clk this opts script exists res db = (out, db1) \<Longrightarrow>
     (Begin, Inr r) \<in> set (issued db db1) \<Longrightarrow>
     Script (sql script) \<in> fst ` set (issued db db1)
       \<and> (preview opts \<longrightarrow> fst (last (issued db db1)) = Rollback)"
  unfolding migrate_apply_def migrate_try_def Let_def issued_def
  by (auto split: if_splits prod.splits sum.splits dest!: db_query_post)

lemma apply_success:
  "migrate_apply srv clk this opts script exists res db = (Inr res', db1) \<Longrightarrow>
     \<not> skipped res' \<and> Script (sql script) \<in> fst ` set (issued db db1)"
  unfolding migrate_apply_def migrate_try_def Let_def issued_def
  by (auto split: if_splits prod.splits sum.splits dest!: db_query_post)

lemma apply_failure:
  "migrate_apply srv clk this opts script exists res db = (out, db1) \<Longrightarrow>
     (q, Inl ex) \<in> set (issued db db1) \<Longrightarrow> applies q \<Longrightarrow>
     \<forall>e. (Rollback, Inl e) \<notin> set (issued db db1) \<Longrightarrow>
     out = Inl ex \<and> 2 \<le> length (issued db db1)
       \<and> (\<exists>ok. last (issued db db1) = (Rollback, Inr ok))
       \<and> last (butlast (issued db db1)) = (q, Inl ex)"
  unfolding migrate_apply_def migrate_try_def Let_def issued_def
  by (auto split: if_splits prod.splits sum.splits dest!: db_query_post)

lemma last_two: "2 \<le> length tr \<Longrightarrow> tr = butlast (butlast tr) @ [last (butlast tr), last tr]"
proof -
  assume "2 \<le> length tr"
  then have "tr \<noteq> []" "butlast tr \<noteq> []" by (auto simp: length_butlast dest: arg_cong [of _ _ length])
  then have "tr = butlast tr @ [last tr]" "butlast tr = butlast (butlast tr) @ [last (butlast tr)]"
    by simp_all
  then show ?thesis by (metis append.assoc append_Cons append_Nil)
qed

lemma apply_nonempty:
  "migrate_apply srv clk this opts script exists res db = (out, db1) \<Longrightarrow> issued db db1 \<noteq> []"
  using apply_post [of srv clk this opts script exists res db out db1] by (auto simp: issued_def)

text \<open>
  C1. When the lookup by hash of a call of \<open>migrate\<close> returns a row, the call sends neither
  \<open>BEGIN\<close> nor the text of the script, an outcome it returns has \<open>skipped = true\<close> and
  \<open>runtime = 0\<close>, it does return an outcome when the reply carries the row and the database
  refuses no statement of the call, and the whole call is the same whatever the value of
  \<open>force\<close>.
\<close>

theorem fingerprint_match_skips:
  assumes run: "migrate srv clk this opts script db = (out, this', db')"
    and found: "(SelectByHash (schemaAndTable this) (hash script), Inr found) \<in> set (issued db db')"
    and some: "0 < rowCount found"
  shows "Begin \<notin> fst ` set (issued db db')
       \<and> Script (sql script) \<notin> fst ` set (issued db db')
       \<and> (\<forall>res. out = Inr res \<longrightarrow> skipped res \<and> runtime res = 0)
       \<and> (rows found \<noteq> [] \<and> \<not> list_ex failed (issued db db') \<longrightarrow> (\<exists>res. out = Inr res))
       \<and> (\<forall>b. migrate srv clk this (opts\<lparr>force := b\<rparr>) script db = (out, this', db'))"
  using run
proof (cases rule: migrate_cases)
  case (ensure_error e tr1)
  with found show ?thesis by auto
next
  case (lookup_error e tr1)
  with found show ?thesis by auto
next
  case (no_row found' tr1)
  with found have "found' = found" by auto
  with no_row show ?thesis by (auto simp: image_subset_iff)
next
  case (same_name found' r rest tr1)
  with found have "found' = found" by auto
  with same_name show ?thesis by (auto simp: MigrationResult_def)
next
  case (renamed_preview found' r rest tr1)
  with found have "found' = found" by auto
  with renamed_preview show ?thesis by (auto simp: MigrationResult_def)
next
  case (renamed found' r rest tr1 reply)
  with found have "found' = found" by auto
  with renamed show ?thesis by (auto simp: MigrationResult_def failed_def split: sum.splits)
next
  case (name_error e tr1 tr2)
  with found some show ?thesis by auto
next
  case (conflict byname tr1 tr2)
  with found some show ?thesis by auto
next
  case (applying tr1 tr2 tr3 db3 exists)
  from apply_statements [OF applying(1)]
  have "SelectByHash (schemaAndTable this) (hash script) \<notin> fst ` set (issued db3 db')" by force
  with applying found some show ?thesis by (auto simp: image_iff)
qed


lemma migrateLoop_append:
  "migrateLoop srv clocks this opts (xs @ ys) i results db =
     (case migrateLoop srv clocks this opts xs i results db of
        (Inl e, this1, db1) \<Rightarrow> (Inl e, this1, db1)
      | (Inr rs, this1, db1) \<Rightarrow> migrateLoop srv clocks this1 opts ys (i + length xs) rs db1)"
  by (induction xs arbitrary: this i results db) (auto split: prod.splits sum.splits)

text \<open>
  C2. When the lookup by hash returns no row, the lookup by filename returns one and
  \<open>force\<close> is not set, \<open>migrate\<close> throws the conflict error, whose message carries the
  filename and the hash of the script; up to then it has sent nothing but the catalogue
  query, the creation of a missing table and the two lookups, so no \<open>BEGIN\<close> and no write
  of a ledger row; and the loop of the batch ends with that error, the connection in the
  state in which \<open>migrate\<close> left it: no later script is tried.
\<close>

theorem filename_conflict_throws_before_begin:
  assumes run: "migrate srv (clocks i) this opts script db = (out, this', db')"
    and byhash: "(SelectByHash (schemaAndTable this) (hash script), Inr byhash) \<in> set (issued db db')"
      "rowCount byhash = 0"
    and byname: "(SelectByFilename (schemaAndTable this) (name script), Inr byname) \<in> set (issued db db')"
      "0 < rowCount byname"
    and noforce: "\<not> force opts"
  shows "out = Inl (Error (js ''Failed to migrate: '' @ name script @ js '' (Hash: '' @ hash script
             @ js '') - the file was already migrated in the past, to force migration use options.force''))
       \<and> fst ` set (issued db db') \<subseteq>
            {SelectTable (schema this) (table this), CreateTable (schemaAndTable this),
             SelectByHash (schemaAndTable this) (hash script),
             SelectByFilename (schemaAndTable this) (name script)}
       \<and> migrateLoop srv clocks this opts (script # rest) i results db
           = (Inl (Error (conflict_message script)), this', db')"
  using run
proof (cases rule: migrate_cases)
  case (ensure_error e tr1)
  with byhash show ?thesis by auto
next
  case (lookup_error e tr1)
  with byhash show ?thesis by auto
next
  case (no_row found' tr1)
  with byhash show ?thesis by auto
next
  case (same_name found' r rest tr1)
  with byhash show ?thesis by auto
next
  case (renamed_preview found' r rest tr1)
  with byhash show ?thesis by auto
next
  case (renamed found' r rest tr1 reply)
  with byhash show ?thesis by auto
next
  case (name_error e tr1 tr2)
  with byname show ?thesis by auto
next
  case (conflict byname' tr1 tr2)
  with run show ?thesis by (auto simp: conflict_message_def)
next
  case (applying tr1 tr2 tr3 db3 exists)
  from apply_statements [OF applying(1)]
  have "SelectByFilename (schemaAndTable this) (name script) \<notin> fst ` set (issued db3 db')" by force
  with applying byname noforce show ?thesis by (auto simp: image_iff)
qed

text \<open>
  C3. In preview mode a call of \<open>migrate\<close> never sends a statement that persists
  anything: no \<open>CREATE TABLE\<close>, no \<open>INSERT\<close>, no \<open>UPDATE\<close> of the ledger, no
  \<open>COMMIT\<close>. Once \<open>BEGIN\<close> has been accepted the text of the script is sent to the
  connection, and the last statement of the call is \<open>ROLLBACK\<close>; an outcome that is not
  skipped means the text of the script was sent.
\<close>

theorem preview_never_persists:
  assumes pv: "preview opts"
    and run: "migrate srv clk this opts script db = (out, this', db')"
  shows "(\<forall>q\<in>fst ` set (issued db db'). \<not> persists q)
       \<and> (\<forall>r. (Begin, Inr r) \<in> set (issued db db') \<longrightarrow>
             Script (sql script) \<in> fst ` set (issued db db')
               \<and> fst (last (issued db db')) = Rollback)
       \<and> (\<forall>res. out = Inr res \<and> \<not> skipped res \<longrightarrow> Script (sql script) \<in> fst ` set (issued db db'))"
  using run
proof (cases rule: migrate_cases)
  case (ensure_error e tr1)
  with pv show ?thesis by auto
next
  case (lookup_error e tr1)
  with pv show ?thesis by auto
next
  case (no_row found' tr1)
  with pv show ?thesis by auto
next
  case (same_name found' r rest tr1)
  with pv show ?thesis by (auto simp: MigrationResult_def)
next
  case (renamed_preview found' r rest tr1)
  with pv show ?thesis by (auto simp: MigrationResult_def)
next
  case (renamed found' r rest tr1 reply)
  with pv show ?thesis by auto
next
  case (name_error e tr1 tr2)
  with pv show ?thesis by auto
next
  case (conflict byname' tr1 tr2)
  with pv show ?thesis by auto
next
  case (applying tr1 tr2 tr3 db3 exists)
  note a = applying(1)
  have ne: "issued db3 db' \<noteq> []" using a by (rule apply_nonempty)
  have 1: "\<forall>q\<in>fst ` set (issued db3 db'). \<not> persists q" using a pv by (rule apply_preview)
  have 2: "(Begin, Inr r) \<in> set (issued db3 db') \<Longrightarrow>
     Script (sql script) \<in> fst ` set (issued db3 db') \<and> fst (last (issued db3 db')) = Rollback" for r
    using apply_begun [OF a] pv by blast
  have 3: "out = Inr res \<Longrightarrow> Script (sql script) \<in> fst ` set (issued db3 db')" for res
    using apply_success a by blast
  have pre: "\<forall>q\<in>fst ` set (tr1 @ tr2 @ tr3). \<not> persists q \<and> q \<noteq> Begin"
    using applying(3-6) pv by auto
  from pre 1 applying(2) have A: "\<forall>q\<in>fst ` set (issued db db'). \<not> persists q" by auto
  have B: "Script (sql script) \<in> fst ` set (issued db db') \<and> fst (last (issued db db')) = Rollback"
    if "(Begin, Inr r) \<in> set (issued db db')" for r
  proof -
    from that pre applying(2) have "(Begin, Inr r) \<in> set (issued db3 db')" by force
    from 2 [OF this] ne applying(2) show ?thesis by auto
  qed
  have C: "Script (sql script) \<in> fst ` set (issued db db')" if "out = Inr res" for res
    using 3 [OF that] applying(2) by auto
  from A B C show ?thesis by blast
qed

text \<open>
  C4. When the lookup by hash returns a row whose stored filename is not the name of the
  script, the call sends neither \<open>BEGIN\<close> nor the text of the script. In preview mode it
  returns the skipped outcome with the rename message and sends nothing that persists;
  otherwise its last statement is the update of the filename, with the name and the hash
  of the script bound, and it returns the skipped outcome with the rename message when
  that update succeeds, the error of the update when it fails.
\<close>

theorem rename_updates_filename:
  assumes run: "migrate srv clk this opts script db = (out, this', db')"
    and found: "(SelectByHash (schemaAndTable this) (hash script), Inr found) \<in> set (issued db db')"
    and some: "0 < rowCount found"
    and row: "rows found = r # rest"
    and other: "filename r \<noteq> name script"
  shows "Begin \<notin> fst ` set (issued db db') \<and> Script (sql script) \<notin> fst ` set (issued db db')
       \<and> (preview opts \<longrightarrow>
            out = Inr \<lparr>res_name = name script, skipped = True, runtime = 0,
                       message = renamed_message script\<rparr>
            \<and> (\<forall>q\<in>fst ` set (issued db db'). \<not> persists q))
       \<and> (\<not> preview opts \<longrightarrow>
            (\<exists>reply. last (issued db db')
                        = (UpdateFilename (schemaAndTable this) (name script) (hash script), reply)
               \<and> out = (case reply of
                          Inl e \<Rightarrow> Inl e
                        | Inr updated \<Rightarrow>
                            Inr \<lparr>res_name = name script, skipped = True, runtime = 0,
                                 message = renamed_message script\<rparr>)))"
  using run
proof (cases rule: migrate_cases)
  case (ensure_error e tr1)
  with found show ?thesis by auto
next
  case (lookup_error e tr1)
  with found show ?thesis by auto
next
  case (no_row found' tr1)
  with found have "found' = found" by auto
  with no_row row show ?thesis by auto
next
  case (same_name found' r' rest' tr1)
  with found have "found' = found" by auto
  with same_name row other show ?thesis by auto
next
  case (renamed_preview found' r' rest' tr1)
  then show ?thesis by (auto simp: MigrationResult_def)
next
  case (renamed found' r' rest' tr1 reply)
  then show ?thesis by (auto simp: MigrationResult_def split: sum.splits)
next
  case (name_error e tr1 tr2)
  with found some show ?thesis by auto
next
  case (conflict byname tr1 tr2)
  with found some show ?thesis by auto
next
  case (applying tr1 tr2 tr3 db3 exists)
  from apply_statements [OF applying(1)]
  have "SelectByHash (schemaAndTable this) (hash script) \<notin> fst ` set (issued db3 db')" by force
  with applying found some show ?thesis by (auto simp: image_iff)
qed

text \<open>
  C8. In a batch, when the database refuses the script, the ledger write or the commit of
  a script, and accepts the \<open>ROLLBACK\<close> that follows, \<open>migrate\<close> throws that very
  error, \<open>ROLLBACK\<close> is the statement sent right after the refused one and the last of the
  call, and \<open>migrateAll\<close> throws the same error after closing the connection: the
  connection holds no statement of a later script, and nothing is printed.
\<close>

theorem apply_failure_rolls_back_and_aborts:
  assumes scripts: "getAllScripts fs md5 this0 = Inr (before @ script # rest)"
    and connect: "db_connect (connectionString this0) = Inr b"
    and earlier: "migrateLoop srv clocks this0 (defaultOptions arg) before 0 []
                    \<lparr>log = [], ended = False, backend = b\<rparr> = (Inr results, this, db)"
    and run: "migrate srv (clocks (length before)) this (defaultOptions arg) script db = (out, this', db')"
    and failure: "(q, Inl ex) \<in> set (issued db db')" "applies q"
    and rollback: "\<forall>e. (Rollback, Inl e) \<notin> set (issued db db')"
  shows "out = Inl ex
       \<and> (\<exists>pre ok. issued db db' = pre @ [(q, Inl ex), (Rollback, Inr ok)])
       \<and> migrateAll fs md5 db_connect srv clocks this0 arg =
           \<lparr>returned = Inl ex,
            caller_options = (case arg of None \<Rightarrow> None | Some given \<Rightarrow> Some (defaultOptions arg)),
            self = this', conn = Some (db'\<lparr>ended := True\<rparr>), console = []\<rparr>"
proof -
  have notin: "q \<notin> {SelectTable (schema this) (table this), CreateTable (schemaAndTable this),
      SelectByHash (schemaAndTable this) (hash script),
      SelectByFilename (schemaAndTable this) (name script),
      UpdateFilename (schemaAndTable this) (name script) (hash script)}"
    using failure(2) by auto
  have A: "out = Inl ex \<and> (\<exists>pre ok. issued db db' = pre @ [(q, Inl ex), (Rollback, Inr ok)])"
    using run
  proof (cases rule: migrate_cases)
    case (ensure_error e tr1)
    with failure notin show ?thesis by auto
  next
    case (lookup_error e tr1)
    with failure notin show ?thesis by auto
  next
    case (no_row found' tr1)
    with failure notin show ?thesis by auto
  next
    case (same_name found' r rest tr1)
    with failure notin show ?thesis by auto
  next
    case (renamed_preview found' r rest tr1)
    with failure notin show ?thesis by auto
  next
    case (renamed found' r rest tr1 reply)
    with failure notin show ?thesis by auto
  next
    case (name_error e tr1 tr2)
    with failure notin show ?thesis by auto
  next
    case (conflict byname' tr1 tr2)
    with failure notin show ?thesis by auto
  next
    case (applying tr1 tr2 tr3 db3 exists)
    let ?t4 = "issued db3 db'"
    from applying(3-6) notin have "q \<notin> fst ` set (tr1 @ tr2 @ tr3)" by auto
    with failure(1) applying(2) have in4: "(q, Inl ex) \<in> set ?t4" by force
    from rollback applying(2) have rb4: "\<forall>e. (Rollback, Inl e) \<notin> set ?t4" by auto
    from apply_failure [OF applying(1) in4 failure(2) rb4]
    obtain ok where o: "out = Inl ex" and len: "2 \<le> length ?t4"
      and l: "last ?t4 = (Rollback, Inr ok)" and bl: "last (butlast ?t4) = (q, Inl ex)"
      by blast
    from last_two [OF len] l bl have "?t4 = butlast (butlast ?t4) @ [(q, Inl ex), (Rollback, Inr ok)]"
      by simp
    with applying(2) have "issued db db' = (tr1 @ tr2 @ tr3 @ butlast (butlast ?t4)) @ [(q, Inl ex), (Rollback, Inr ok)]"
      by simp
    with o show ?thesis by blast
  qed
  then have o: "out = Inl ex" by simp
  have "migrateLoop srv clocks this0 (defaultOptions arg) (before @ script # rest) 0 []
          \<lparr>log = [], ended = False, backend = b\<rparr> = (Inl ex, this', db')"
    using earlier run o by (simp add: migrateLoop_append)
  with scripts connect have "migrateAll fs md5 db_connect srv clocks this0 arg =
           \<lparr>returned = Inl ex,
            caller_options = (case arg of None \<Rightarrow> None | Some given \<Rightarrow> Some (defaultOptions arg)),
            self = this', conn = Some (db'\<lparr>ended := True\<rparr>), console = []\<rparr>"
    by (simp add: migrateAll_def Let_def)
  with A show ?thesis by simp
qed


lemma caller_options_migrateAll:
  "caller_options (migrateAll fs md5 db_connect srv clocks this arg) =
     (case arg of None \<Rightarrow> None | Some given \<Rightarrow> Some (defaultOptions arg))"
  by (simp add: migrateAll_def Let_def split: sum.splits prod.splits option.splits)

text \<open>
  C9, amended. \<open>migrate\<close> and \<open>createMigrationsTable\<close> only read the options. After
  \<open>migrateAll\<close> the options object of the caller has the \<open>preview\<close> and \<open>force\<close>
  it had, and its \<open>output\<close> too when that was set; an object without \<open>output\<close> has
  \<open>output = true\<close> afterwards. A caller that passed no object has none afterwards.
\<close>

theorem migrateAll_only_defaults_output:
  "caller_options (migrateAll fs md5 db_connect srv clocks this (Some given)) =
     Some (given\<lparr>output_flag := (case output_flag given of None \<Rightarrow> Some True | Some v \<Rightarrow> Some v)\<rparr>)
   \<and> caller_options (migrateAll fs md5 db_connect srv clocks this None) = None"
  by (auto simp: caller_options_migrateAll defaultOptions_def split: option.splits)

end
